theory Spec2Isabelle
  imports Main
begin

section \<open>Python values\<close>

text \<open>
  The payloads that travel between the operators are JSON-like Python values. A dict is
  an association list with string keys (the keys of the envelope and of every payload in
  the repository are strings); looking a key up takes its first binding. Floats do not
  occur in the operators' control flow and are left out.
\<close>

datatype pyval =
    PNone
  | PBool bool
  | PInt int
  | PStr string
  | PList "pyval list"
  | PDict "(string \<times> pyval) list"

text \<open>Python truthiness, as used by \<^verbatim>\<open>if x:\<close> and \<^verbatim>\<open>not x\<close>.\<close>

fun truthy :: "pyval \<Rightarrow> bool" where
  "truthy PNone = False"
| "truthy (PBool b) = b"
| "truthy (PInt i) = (i \<noteq> 0)"
| "truthy (PStr s) = (s \<noteq> [])"
| "truthy (PList xs) = (xs \<noteq> [])"
| "truthy (PDict kvs) = (kvs \<noteq> [])"

section \<open>Output envelope\<close>

text \<open>
  \<^verbatim>\<open>create_agent_output(agent_name, agent_result, dataflow_status=False)\<close>, the
  fallback defined in each operator script (the copies are the same up to layout):
  \<^verbatim>\<open>return {"agent_name": agent_name, "agent_result": agent_result,
          "dataflow_status": dataflow_status}\<close>
\<close>

definition create_agent_output :: "string \<Rightarrow> pyval \<Rightarrow> bool \<Rightarrow> pyval" where
  "create_agent_output agent_name agent_result dataflow_status =
     PDict [(''agent_name'', PStr agent_name),
            (''agent_result'', agent_result),
            (''dataflow_status'', PBool dataflow_status)]"

text \<open>
  \<^verbatim>\<open>load_node_result(input_data)\<close>, defined alike in question_gen_operator.py,
  rag_index_operator.py, rag_query_operator.py and result_logger_operator.py:
  \<^verbatim>\<open>if isinstance(input_data, dict) and "agent_result" in input_data:
      return input_data["agent_result"]
  return input_data\<close>
\<close>

fun load_node_result :: "pyval \<Rightarrow> pyval" where
  "load_node_result (PDict kvs) =
     (case map_of kvs ''agent_result'' of
        Some r \<Rightarrow> r
      | None \<Rightarrow> PDict kvs)"
| "load_node_result v = v"

text \<open>The test that \<^verbatim>\<open>load_node_result\<close> makes: a dict that has the key \<^verbatim>\<open>agent_result\<close>.\<close>

fun has_agent_result :: "pyval \<Rightarrow> bool" where
  "has_agent_result (PDict kvs) = (''agent_result'' \<in> set (map fst kvs))"
| "has_agent_result v = False"

text \<open>
  The shape of what \<^verbatim>\<open>create_agent_output\<close> builds: a dict with the three keys
  of the envelope (producer name, result, is-final flag).
\<close>

fun envelope_shaped :: "pyval \<Rightarrow> bool" where
  "envelope_shaped (PDict kvs) =
     (''agent_name'' \<in> set (map fst kvs) \<and>
      ''agent_result'' \<in> set (map fst kvs) \<and>
      ''dataflow_status'' \<in> set (map fst kvs))"
| "envelope_shaped v = False"

section \<open>Traces, exceptions and the outside world\<close>

text \<open>
  What a function does besides returning is recorded, in program order, in a trace of
  actions: the calls it makes to the outside (downloads, LLM requests, queries, writes,
  sleeps, outputs sent to the host) and its log lines. A log line carries its level and
  the constant text of the message up to the first interpolated value (a quotation mark
  that opens the value, and non-ASCII marks, are dropped). A call into code that the
  model takes from the world (\<^verbatim>\<open>load_config\<close>, \<^verbatim>\<open>_setup_dependencies\<close>, the
  retrieval engine, \<^verbatim>\<open>extract_unique_contexts\<close>, \<^verbatim>\<open>_insert_contexts_from_file\<close>)
  is one action, without the log lines written inside it.
\<close>

datatype pyexn =
  ValueError | TypeError | OSError | FileNotFoundError | JSONDecodeError | RuntimeError |
  UnboundLocalError

datatype level = DEBUG | INFO | WARNING | ERROR

datatype action =
    Log level string
  | SnapshotDownload string string
  | TimeSleep int
  | AsyncSleep int
  | ChatCompletion string string
  | RagQuery string string
  | LoadConfig
  | SetupDependencies
  | InitRag pyval
  | ExtractUniqueContexts string string
  | ReadContexts string
  | InsertContexts string
  | WriteText string string
  | JsonDump string pyval bool
  | SendOutput string pyval pyval

fun is_log :: "action \<Rightarrow> bool" where
  "is_log (Log l m) = True"
| "is_log a = False"

fun is_send :: "action \<Rightarrow> bool" where
  "is_send (SendOutput i v m) = True"
| "is_send a = False"

text \<open>The trace without its log lines: the calls made to the outside.\<close>

definition effects :: "action list \<Rightarrow> action list" where
  "effects tr = filter (\<lambda>a. \<not> is_log a) tr"

text \<open>The outputs handed to the host's \<^verbatim>\<open>send_output\<close>.\<close>

definition sent :: "action list \<Rightarrow> action list" where
  "sent tr = filter is_send tr"

text \<open>Sequencing: the actions \<open>pre\<close> happen, then the computation \<open>p\<close> runs.\<close>

definition after :: "action list \<Rightarrow> action list \<times> 'a \<Rightarrow> action list \<times> 'a" where
  "after pre p = (pre @ fst p, snd p)"

text \<open>
  The file system as the code probes it. \<^verbatim>\<open>os.path.isdir\<close> and
  \<^verbatim>\<open>os.path.isfile\<close> are applied to event payloads, which may be any value: a value
  that is no path raises \<^verbatim>\<open>TypeError\<close>. \<open>read_text\<close> is
  \<^verbatim>\<open>open(p, "r", encoding="utf-8").read()\<close>.
\<close>

record fs =
  os_path_exists :: "string \<Rightarrow> bool"
  os_listdir :: "string \<Rightarrow> pyexn + string list"
  os_path_isdir :: "pyval \<Rightarrow> pyexn + bool"
  os_path_isfile :: "pyval \<Rightarrow> pyexn + bool"
  read_text :: "pyval \<Rightarrow> pyexn + string"

section \<open>Retry loops\<close>

text \<open>
  An external operation is given by the outcome of each of its invocations: the
  invocation number \<open>k\<close> (counted from 0) either succeeds or raises an exception whose
  \<^verbatim>\<open>str(e)\<close> is the given message. In each loop below the counter \<^verbatim>\<open>retries\<close> is
  the number of invocations made so far.
\<close>

text \<open>
  data_prep_operator.py, \<^verbatim>\<open>download_dataset(repo_id, local_dir, max_retries=3, delay=5)\<close>:
  \<^verbatim>\<open>
  retries = 0
  while retries < max_retries:
      try:
          snapshot_download(...)
          return True
      except Exception as e:
          retries += 1
          if retries < max_retries:
              time.sleep(delay)
          else:
              if os.path.exists(local_dir) and os.listdir(local_dir):
                   return True
              return False
  return False\<close>
  \<^verbatim>\<open>time.sleep\<close> raises \<^verbatim>\<open>ValueError\<close> for a negative delay, and \<^verbatim>\<open>os.listdir\<close> may
  raise; both happen inside the handler, so they leave the function.
\<close>

function download_dataset_from ::
  "(nat \<Rightarrow> string option) \<Rightarrow> fs \<Rightarrow> string \<Rightarrow> string \<Rightarrow> int \<Rightarrow> int \<Rightarrow> nat
     \<Rightarrow> action list \<times> (pyexn + bool)" where
  "download_dataset_from snapshot_download f repo_id local_dir max_retries delay retries =
     (if int retries < max_retries then
        (case snapshot_download retries of
           None \<Rightarrow>
             ([SnapshotDownload repo_id local_dir,
               Log INFO ''Dataset successfully downloaded to: ''], Inr True)
         | Some e \<Rightarrow>
             after [SnapshotDownload repo_id local_dir,
                    Log WARNING ''Error downloading dataset (attempt '']
               (if int (Suc retries) < max_retries then
                  after [Log INFO ''Retrying in '']
                    (if delay < 0 then ([], Inl ValueError)
                     else after [TimeSleep delay]
                       (download_dataset_from snapshot_download f repo_id local_dir
                          max_retries delay (Suc retries)))
                else
                  after [Log ERROR ''Max download retries reached.'']
                    (if os_path_exists f local_dir then
                       (case os_listdir f local_dir of
                          Inl x \<Rightarrow> ([], Inl x)
                        | Inr names \<Rightarrow>
                            if names \<noteq> [] then ([Log WARNING ''Directory ''], Inr True)
                            else ([], Inr False))
                     else ([], Inr False))))
      else ([], Inr False))"
  by pat_completeness auto
termination
  by (relation "measure (\<lambda>(op, f, r, l, m, d, k). nat (m - int k))") auto

declare download_dataset_from.simps [simp del]

definition download_dataset ::
  "(nat \<Rightarrow> string option) \<Rightarrow> fs \<Rightarrow> string \<Rightarrow> string \<Rightarrow> int \<Rightarrow> int
     \<Rightarrow> action list \<times> (pyexn + bool)" where
  "download_dataset snapshot_download f repo_id local_dir max_retries delay =
     after [Log INFO ''Attempting to download dataset '']
       (download_dataset_from snapshot_download f repo_id local_dir max_retries delay 0)"

text \<open>
  question_gen_operator.py,
  \<^verbatim>\<open>call_llm_for_questions(client, model, prompt, max_retries=3, delay=5)\<close>. A
  successful invocation yields \<^verbatim>\<open>response.choices[0].message.content\<close>, a string
  or \<^verbatim>\<open>None\<close>; the function returns \<^verbatim>\<open>None\<close> after the last failure and also
  when the loop body never runs. \<^verbatim>\<open>asyncio.sleep\<close> accepts any delay.
\<close>

function call_llm_for_questions_from ::
  "(nat \<Rightarrow> string + string option) \<Rightarrow> string \<Rightarrow> string \<Rightarrow> int \<Rightarrow> int \<Rightarrow> nat
     \<Rightarrow> action list \<times> string option" where
  "call_llm_for_questions_from create model prompt max_retries delay retries =
     (if int retries < max_retries then
        after [Log INFO ''Sending request to LLM ('', ChatCompletion model prompt]
          (case create retries of
             Inr content \<Rightarrow> ([Log INFO ''LLM response received successfully.''], content)
           | Inl e \<Rightarrow>
               after [Log WARNING ''LLM call failed (attempt '']
                 (if int (Suc retries) < max_retries then
                    after [Log INFO ''Retrying LLM call in '', AsyncSleep delay]
                      (call_llm_for_questions_from create model prompt
                         max_retries delay (Suc retries))
                  else ([Log ERROR ''LLM call failed after maximum retries.''], None)))
      else ([], None))"
  by pat_completeness auto
termination
  by (relation "measure (\<lambda>(op, m, p, n, d, k). nat (n - int k))") auto

declare call_llm_for_questions_from.simps [simp del]

definition call_llm_for_questions ::
  "(nat \<Rightarrow> string + string option) \<Rightarrow> string \<Rightarrow> string \<Rightarrow> int \<Rightarrow> int
     \<Rightarrow> action list \<times> string option" where
  "call_llm_for_questions create model prompt max_retries delay =
     call_llm_for_questions_from create model prompt max_retries delay 0"

text \<open>
  rag_query_operator.py, \<^verbatim>\<open>Operator._process_single_query(query_text, query_param)\<close>.
  It reads \<^verbatim>\<open>self.rag_instance\<close> and, from \<^verbatim>\<open>self.config\<close>, the optional keys
  \<^verbatim>\<open>QUERY_MAX_RETRIES\<close> (default 1) and \<^verbatim>\<open>QUERY_RETRY_DELAY\<close> (default 5). It
  returns the pair \<^verbatim>\<open>(result_data, error_data)\<close>, one of them \<^verbatim>\<open>None\<close>.
\<close>

record rag_query_config =
  QUERY_MODE :: string
  OUTPUT_RESULTS_FILE :: string
  OUTPUT_ERRORS_FILE :: string
  QUERY_MAX_RETRIES :: "int option"
  QUERY_RETRY_DELAY :: "int option"

definition query_max_retries :: "rag_query_config \<Rightarrow> int" where
  "query_max_retries cfg = (case QUERY_MAX_RETRIES cfg of None \<Rightarrow> 1 | Some n \<Rightarrow> n)"

definition query_retry_delay :: "rag_query_config \<Rightarrow> int" where
  "query_retry_delay cfg = (case QUERY_RETRY_DELAY cfg of None \<Rightarrow> 5 | Some d \<Rightarrow> d)"

definition query_error :: "string \<Rightarrow> string \<Rightarrow> pyval" where
  "query_error query_text e = PDict [(''query'', PStr query_text), (''error'', PStr e)]"

function process_single_query_from ::
  "(nat \<Rightarrow> string + pyval) \<Rightarrow> string \<Rightarrow> string \<Rightarrow> int \<Rightarrow> int \<Rightarrow> nat
     \<Rightarrow> action list \<times> (pyval option \<times> pyval option)" where
  "process_single_query_from aquery query_text mode max_retries retry_delay retries =
     (if int retries < max_retries then
        after [Log DEBUG ''Querying RAG for: '', RagQuery query_text mode]
          (case aquery retries of
             Inr result \<Rightarrow>
               ([Log DEBUG ''Query successful in ''],
                (Some (PDict [(''query'', PStr query_text), (''result'', result)]), None))
           | Inl e \<Rightarrow>
               after [Log WARNING ''Error querying RAG for '']
                 (if int (Suc retries) < max_retries then
                    after [Log INFO ''Retrying query in '', AsyncSleep retry_delay]
                      (process_single_query_from aquery query_text mode
                         max_retries retry_delay (Suc retries))
                  else
                    ([Log ERROR ''Query failed after ''],
                     (None, Some (query_error query_text e)))))
      else ([], (None, Some (query_error query_text ''Query failed after retries''))))"
  by pat_completeness auto
termination
  by (relation "measure (\<lambda>(op, q, m, n, d, k). nat (n - int k))") auto

declare process_single_query_from.simps [simp del]

definition process_single_query ::
  "bool \<Rightarrow> rag_query_config \<Rightarrow> (nat \<Rightarrow> string + pyval) \<Rightarrow> string \<Rightarrow> string
     \<Rightarrow> action list \<times> (pyval option \<times> pyval option)" where
  "process_single_query rag_instance cfg aquery query_text mode =
     (if \<not> rag_instance then
        ([], (None, Some (query_error query_text ''RAG instance not initialized'')))
      else process_single_query_from aquery query_text mode
             (query_max_retries cfg) (query_retry_delay cfg) 0)"


section \<open>Extracting the questions\<close>

text \<open>
  rag_query_operator.py, \<^verbatim>\<open>extract_queries(file_path)\<close>:
  \<^verbatim>\<open>
  data = f.read()
  data = data.replace("**", "")
  found_queries = re.findall(r"-\s*Question\s*\d+:\s*(.+)", data,
                             re.IGNORECASE | re.MULTILINE)
  queries = [q.strip() for q in found_queries if q.strip()]\<close>
  and any exception (a missing file among them) leaves \<^verbatim>\<open>queries = []\<close>.
  The text is a list of ASCII characters; the classes of \<^verbatim>\<open>\s\<close>, \<^verbatim>\<open>\d\<close> and of
  \<^verbatim>\<open>str.strip\<close> are their ASCII parts.
\<close>

definition is_space :: "char \<Rightarrow> bool" where
  "is_space c = (of_char c \<in> {9, 10, 11, 12, 13, 28, 29, 30, 31, 32 :: nat})"

definition is_digit :: "char \<Rightarrow> bool" where
  "is_digit c = (48 \<le> (of_char c :: nat) \<and> (of_char c :: nat) \<le> 57)"

definition lower :: "char \<Rightarrow> char" where
  "lower c = (if 65 \<le> (of_char c :: nat) \<and> (of_char c :: nat) \<le> 90
              then char_of (of_char c + (32 :: nat)) else c)"

text \<open>\<^verbatim>\<open>str.replace("**", "")\<close>: the occurrences are found from left to right, without overlap.\<close>

fun remove_stars :: "string \<Rightarrow> string" where
  "remove_stars (a # b # cs) =
     (if a = CHR ''*'' \<and> b = CHR ''*'' then remove_stars cs else a # remove_stars (b # cs))"
| "remove_stars cs = cs"

text \<open>A literal of the pattern under \<^verbatim>\<open>re.IGNORECASE\<close>: the rest of the text after it.\<close>

fun match_literal :: "string \<Rightarrow> string \<Rightarrow> string option" where
  "match_literal [] xs = Some xs"
| "match_literal (p # ps) [] = None"
| "match_literal (p # ps) (x # xs) =
     (if lower p = lower x then match_literal ps xs else None)"

text \<open>
  The tail \<^verbatim>\<open>\s*(.+)\<close> of the pattern. \<^verbatim>\<open>\s*\<close> is greedy and gives characters back
  one at a time until \<^verbatim>\<open>.+\<close>, which takes everything up to the end of the line, can
  match at least one character: \<open>k\<close> is the number of characters \<^verbatim>\<open>\s*\<close> keeps.
  The result is the group and the text after the match.
\<close>

fun match_tail :: "nat \<Rightarrow> string \<Rightarrow> (string \<times> string) option" where
  "match_tail k r =
     (let g = takeWhile (\<lambda>c. c \<noteq> CHR 0x0A) (drop k r) in
      if g \<noteq> [] then Some (g, dropWhile (\<lambda>c. c \<noteq> CHR 0x0A) (drop k r))
      else (case k of 0 \<Rightarrow> None | Suc j \<Rightarrow> match_tail j r))"

text \<open>
  A match of the whole pattern that starts at the head of the text. Before the tail no
  backtracking can help: what a greedy \<^verbatim>\<open>\s*\<close> or \<^verbatim>\<open>\d+\<close> gives back is a blank or a
  digit, where the pattern needs a letter, a digit or a colon.
\<close>

definition match_here :: "string \<Rightarrow> (string \<times> string) option" where
  "match_here xs =
     (case xs of
        [] \<Rightarrow> None
      | x # r1 \<Rightarrow>
          if x \<noteq> CHR ''-'' then None
          else (case match_literal ''Question'' (dropWhile is_space r1) of
                  None \<Rightarrow> None
                | Some r3 \<Rightarrow>
                    let r4 = dropWhile is_space r3 in
                    if takeWhile is_digit r4 = [] then None
                    else (case dropWhile is_digit r4 of
                            [] \<Rightarrow> None
                          | c # r6 \<Rightarrow>
                              if c \<noteq> CHR '':'' then None
                              else match_tail (length (takeWhile is_space r6)) r6)))"

lemma match_literal_length:
  "match_literal ps xs = Some r \<Longrightarrow> length r \<le> length xs"
  by (induction ps xs rule: match_literal.induct) (auto split: if_splits)

lemma match_tail_shorter:
  "match_tail k r = Some (g, rest) \<Longrightarrow> length rest \<le> length r"
proof (induction k)
  case 0
  have "length (dropWhile (\<lambda>c. c \<noteq> CHR 0x0A) r) \<le> length r"
    by (rule length_dropWhile_le)
  with 0 show ?case
    by (auto simp: Let_def split: if_splits)
next
  case (Suc k)
  have "length (dropWhile (\<lambda>c. c \<noteq> CHR 0x0A) (drop (Suc k) r)) \<le> length (drop (Suc k) r)"
    by (rule length_dropWhile_le)
  with Suc show ?case
    by (auto simp: Let_def split: if_splits)
qed

lemma match_here_shorter:
  assumes "match_here xs = Some (g, rest)"
  shows "length rest < length xs"
proof -
  from assms obtain r1 r3 r6 where xs: "xs = CHR ''-'' # r1"
    and r3: "match_literal ''Question'' (dropWhile is_space r1) = Some r3"
    and r6: "dropWhile is_digit (dropWhile is_space r3) = CHR '':'' # r6"
    and tl: "match_tail (length (takeWhile is_space r6)) r6 = Some (g, rest)"
    unfolding match_here_def
    by (auto simp: Let_def split: list.splits if_splits option.splits)
  have "length rest \<le> length r6"
    using tl by (rule match_tail_shorter)
  also have "length r6 < length (dropWhile is_digit (dropWhile is_space r3))"
    by (simp add: r6)
  also have "\<dots> \<le> length (dropWhile is_space r3)"
    by (rule length_dropWhile_le)
  also have "\<dots> \<le> length r3"
    by (rule length_dropWhile_le)
  also have "\<dots> \<le> length (dropWhile is_space r1)"
    using r3 by (rule match_literal_length)
  also have "\<dots> \<le> length r1"
    by (rule length_dropWhile_le)
  finally show ?thesis
    by (simp add: xs)
qed

text \<open>
  \<^verbatim>\<open>re.findall\<close>: the matches from left to right, each search starting where the last
  match ended (a match is never empty), or one character further when there is none.
\<close>

function findall :: "string \<Rightarrow> string list" where
  "findall [] = []"
| "findall (x # xs) =
     (case match_here (x # xs) of
        Some m \<Rightarrow> fst m # findall (snd m)
      | None \<Rightarrow> findall xs)"
  by pat_completeness auto
termination
proof (relation "measure length")
  fix x xs m
  assume "match_here (x # xs) = Some m"
  then have "match_here (x # xs) = Some (fst m, snd m)"
    by simp
  then have "length (snd m) < length (x # xs)"
    by (rule match_here_shorter)
  then show "(snd m, x # xs) \<in> measure length"
    by simp
qed simp_all

definition strip :: "string \<Rightarrow> string" where
  "strip s = rev (dropWhile is_space (rev (dropWhile is_space s)))"

definition queries_of_text :: "string \<Rightarrow> string list" where
  "queries_of_text data =
     filter (\<lambda>q. q \<noteq> []) (map strip (findall (remove_stars data)))"

definition extract_queries :: "fs \<Rightarrow> pyval \<Rightarrow> action list \<times> string list" where
  "extract_queries f file_path =
     after [Log INFO ''Extracting queries from: '']
       (case read_text f file_path of
          Inl FileNotFoundError \<Rightarrow> ([Log ERROR ''Questions file not found: ''], [])
        | Inl e \<Rightarrow> ([Log ERROR ''Error extracting queries from ''], [])
        | Inr data \<Rightarrow>
            (let queries = queries_of_text data in
             (Log INFO ''Extracted '' #
              (if queries = [] then [Log WARNING ''No queries extracted from ''] else []),
              queries)))"

section \<open>Events and the operator contract\<close>

text \<open>
  The host calls \<^verbatim>\<open>on_event(dora_event, send_output)\<close> with one event at a time. An
  \<^verbatim>\<open>INPUT\<close> event carries its id, its value (the model holds
  \<^verbatim>\<open>dora_event["value"][0].as_py()\<close>, the one element of the array) and the
  metadata that \<^verbatim>\<open>send_output\<close> passes on. The call returns a \<^verbatim>\<open>DoraStatus\<close>,
  or an exception leaves it. \<^verbatim>\<open>send_output\<close> and \<^verbatim>\<open>pa.array\<close> are taken to
  succeed.
\<close>

datatype event =
    INPUT string pyval pyval
  | STOP_EVENT
  | ERROR_EVENT string
  | OTHER_EVENT string

datatype DoraStatus = CONTINUE | STOP

text \<open>
  The result of \<^verbatim>\<open>load_config()\<close>, which reads a YAML file: it returns
  \<^verbatim>\<open>True\<close> with \<^verbatim>\<open>self.config\<close> set, or \<^verbatim>\<open>False\<close>, leaving in
  \<^verbatim>\<open>self.config\<close> either \<^verbatim>\<open>None\<close> (no section, or a required key missing) or the
  section it had stored when a later step raised.
\<close>

datatype 'c load_result = Loaded 'c | LoadFailed "'c option"

text \<open>Sequencing a computation that may raise with what follows it.\<close>

definition and_then ::
  "action list \<times> (pyexn + 'a) \<Rightarrow> ('a \<Rightarrow> action list \<times> (pyexn + 'b))
     \<Rightarrow> action list \<times> (pyexn + 'b)" where
  "and_then p k = (case snd p of Inl x \<Rightarrow> (fst p, Inl x) | Inr a \<Rightarrow> after (fst p) (k a))"

section \<open>The data preparation operator\<close>

text \<open>
  data_prep_operator.py. The configuration holds the three required keys (the two
  directories already resolved to strings by \<^verbatim>\<open>load_config\<close>) and the truth value of
  \<^verbatim>\<open>config.get("SKIP_DOWNLOAD", False)\<close>.
\<close>

record data_prep_config =
  DATASET_REPO_ID :: string
  DOWNLOAD_DIR :: string
  OUTPUT_DIR :: string
  SKIP_DOWNLOAD :: bool

record data_prep_state =
  dp_config :: "data_prep_config option"
  dp_processed :: bool

text \<open>
  The world of the operator: what \<^verbatim>\<open>load_config\<close> finds, the outcome of each
  \<^verbatim>\<open>snapshot_download\<close>, the file system, and what
  \<^verbatim>\<open>extract_unique_contexts(input_directory, output_directory)\<close> returns or raises
  (it reads and writes the JSON files, which play no part in what is proved here; one of
  its handlers, \<^verbatim>\<open>except Exception as e\<close>, is written without its colon in the source).
\<close>

record data_prep_world =
  dp_load_config :: "data_prep_config load_result"
  dp_snapshot_download :: "nat \<Rightarrow> string option"
  dp_fs :: fs
  dp_extract_unique_contexts :: "string \<Rightarrow> string \<Rightarrow> pyexn + bool"

text \<open>Step 1 of the main logic: \<^verbatim>\<open>download_successful\<close>.\<close>

definition dp_download_step ::
  "data_prep_world \<Rightarrow> data_prep_config \<Rightarrow> action list \<times> (pyexn + bool)" where
  "dp_download_step w cfg =
     (if \<not> SKIP_DOWNLOAD cfg then
        download_dataset (dp_snapshot_download w) (dp_fs w)
          (DATASET_REPO_ID cfg) (DOWNLOAD_DIR cfg) 3 5
      else
        after [Log INFO ''Skipping download. Assuming dataset exists in '']
          (case os_path_isdir (dp_fs w) (PStr (DOWNLOAD_DIR cfg)) of
             Inl x \<Rightarrow> ([], Inl x)
           | Inr False \<Rightarrow>
               ([Log ERROR ''Error: Skipped download, but directory ''], Inr False)
           | Inr True \<Rightarrow>
               (case os_listdir (dp_fs w) (DOWNLOAD_DIR cfg) of
                  Inl x \<Rightarrow> ([], Inl x)
                | Inr names \<Rightarrow>
                    if names \<noteq> [] then ([Log INFO ''Directory ''], Inr True)
                    else ([Log ERROR ''Error: Skipped download, but directory ''],
                          Inr False))))"

text \<open>
  The body of the \<^verbatim>\<open>try\<close> block of \<^verbatim>\<open>on_event\<close>. It ends normally either after
  sending the output (\<open>True\<close>) or in the branch "download failed" (\<open>False\<close>).
\<close>

definition dp_main_logic ::
  "data_prep_world \<Rightarrow> data_prep_config \<Rightarrow> pyval \<Rightarrow> action list \<times> (pyexn + bool)" where
  "dp_main_logic w cfg metadata =
     and_then (dp_download_step w cfg) (\<lambda>download_successful.
       if download_successful then
         and_then
           ([Log INFO ''Proceeding with context extraction.'',
             ExtractUniqueContexts (DOWNLOAD_DIR cfg) (OUTPUT_DIR cfg)],
            dp_extract_unique_contexts w (DOWNLOAD_DIR cfg) (OUTPUT_DIR cfg))
           (\<lambda>extraction_successful.
              ([if extraction_successful
                then Log INFO ''Context extraction completed successfully.''
                else Log WARNING ''Context extraction finished, but there might have been issues (e.g., no files found, save errors).'',
                Log INFO ''Sending output directory path: '',
                SendOutput ''unique_contexts_dir''
                  (create_agent_output ''data_prep'' (PStr (OUTPUT_DIR cfg)) False) metadata,
                Log INFO ''Output sent successfully.'',
                Log INFO ''Data preparation process finished.''],
               Inr True))
       else
         ([Log ERROR ''Dataset download/verification failed. Cannot proceed with context extraction.''],
          Inr False))"

text \<open>
  The part of \<^verbatim>\<open>on_event\<close> after the configuration is there: the \<^verbatim>\<open>try\<close> block
  and its handler. Every way out sets \<^verbatim>\<open>self.processed = True\<close> and returns
  \<^verbatim>\<open>DoraStatus.STOP\<close>.
\<close>

definition dp_run ::
  "data_prep_world \<Rightarrow> data_prep_state \<Rightarrow> data_prep_config \<Rightarrow> pyval \<Rightarrow> action list
     \<Rightarrow> data_prep_state \<times> action list \<times> (pyexn + DoraStatus)" where
  "dp_run w s cfg metadata pre =
     (let m = dp_main_logic w cfg metadata in
      (s\<lparr>dp_processed := True\<rparr>,
       pre @ fst m @
         (case snd m of
            Inl x \<Rightarrow> [Log ERROR ''An unhandled error occurred during data preparation: '']
          | Inr b \<Rightarrow> []),
       Inr STOP))"

fun dp_on_event ::
  "data_prep_world \<Rightarrow> data_prep_state \<Rightarrow> event
     \<Rightarrow> data_prep_state \<times> action list \<times> (pyexn + DoraStatus)" where
  "dp_on_event w s (INPUT event_id val metadata) =
     (if dp_processed s then
        (s, [Log INFO ''Data preparation already processed. Ignoring further inputs.''],
         Inr CONTINUE)
      else
        (case dp_config s of
           Some cfg \<Rightarrow>
             dp_run w s cfg metadata [Log INFO ''Received input event on ID: '']
         | None \<Rightarrow>
             (case dp_load_config w of
                Loaded cfg \<Rightarrow>
                  dp_run w (s\<lparr>dp_config := Some cfg\<rparr>) cfg metadata
                    [Log INFO ''Received input event on ID: '', LoadConfig]
              | LoadFailed c \<Rightarrow>
                  (s\<lparr>dp_config := c\<rparr>,
                   [Log INFO ''Received input event on ID: '', LoadConfig,
                    Log ERROR ''Failed to load configuration. Stopping.''],
                   Inr STOP))))"
| "dp_on_event w s STOP_EVENT =
     (s, [Log INFO ''Received STOP event. Shutting down DataPrepOperator.''], Inr CONTINUE)"
| "dp_on_event w s (ERROR_EVENT e) =
     (s, [Log ERROR ''Received ERROR event: ''], Inr CONTINUE)"
| "dp_on_event w s (OTHER_EVENT t) =
     (s, [Log DEBUG ''Received unknown event type: ''], Inr CONTINUE)"

section \<open>The question generation operator\<close>

text \<open>question_gen_operator.py. The keys of the configuration that the control flow reads.\<close>

record question_gen_config =
  INPUT_CONTEXTS_FILENAME :: string
  OUTPUT_QUESTIONS_FILE :: string
  LLM_MODEL_NAME :: string
  SUMMARY_TOTAL_TOKENS :: int

record question_gen_state =
  qg_config :: "question_gen_config option"
  qg_processed :: bool
  qg_tokenizer :: bool
  qg_llm_client :: bool

text \<open>
  The world of the operator. \<open>qg_setup_dependencies\<close> tells whether the tokenizer and
  the client can be built; \<open>qg_loop_raises\<close> whether
  \<^verbatim>\<open>loop.run_until_complete\<close> raises \<^verbatim>\<open>RuntimeError\<close> instead of running the task;
  \<open>qg_json_load\<close> is the content of the contexts file (or the exception of
  \<^verbatim>\<open>open\<close>/\<^verbatim>\<open>json.load\<close>); \<open>qg_prompt\<close> builds the prompt from the contexts with
  the tokenizer (\<open>None\<close> when summarising raises); \<open>qg_write_text\<close> writes the
  questions file.
\<close>

record question_gen_world =
  qg_load_config :: "question_gen_config load_result"
  qg_setup_dependencies :: bool
  qg_loop_raises :: bool
  qg_fs :: fs
  qg_json_load :: "string \<Rightarrow> pyexn + pyval"
  qg_prompt :: "int \<Rightarrow> pyval list \<Rightarrow> string option"
  qg_chat_completions_create :: "nat \<Rightarrow> string + string option"
  qg_write_text :: "string \<Rightarrow> string \<Rightarrow> pyexn option"

text \<open>\<^verbatim>\<open>os.path.join(a, b)\<close> of posixpath, for two strings.\<close>

definition os_path_join :: "string \<Rightarrow> string \<Rightarrow> string" where
  "os_path_join a b =
     (if b \<noteq> [] \<and> hd b = CHR ''/'' then b
      else if a = [] \<or> last a = CHR ''/'' then a @ b
      else a @ ''/'' @ b)"

text \<open>
  \<^verbatim>\<open>_generate_questions_task(unique_contexts_dir)\<close>: the path of the questions file,
  or \<^verbatim>\<open>None\<close>. Every exception inside is caught and gives \<^verbatim>\<open>None\<close>; joining a
  directory that is no string raises \<^verbatim>\<open>TypeError\<close>, caught like the others.
\<close>

definition generate_questions_task ::
  "question_gen_world \<Rightarrow> question_gen_state \<Rightarrow> pyval \<Rightarrow> action list \<times> string option" where
  "generate_questions_task w s unique_contexts_dir =
     (case qg_config s of
        None \<Rightarrow> ([Log ERROR ''Operator not properly configured or dependencies not set up.''], None)
      | Some cfg \<Rightarrow>
          if \<not> qg_tokenizer s \<or> \<not> qg_llm_client s then
            ([Log ERROR ''Operator not properly configured or dependencies not set up.''], None)
          else
            (case unique_contexts_dir of
               PStr d \<Rightarrow>
                 (let context_file_path = os_path_join d (INPUT_CONTEXTS_FILENAME cfg) in
                  after [Log INFO ''Attempting to load contexts from: '']
                    (if \<not> os_path_exists (qg_fs w) context_file_path then
                       ([Log ERROR ''Required context file not found: ''], None)
                     else
                       after [ReadContexts context_file_path]
                       (case qg_json_load w context_file_path of
                          Inl FileNotFoundError \<Rightarrow>
                            ([Log ERROR ''Context file not found during processing: ''], None)
                        | Inl JSONDecodeError \<Rightarrow>
                            ([Log ERROR ''Error decoding JSON from ''], None)
                        | Inl x \<Rightarrow>
                            ([Log ERROR ''An unhandled error occurred during question generation task: ''], None)
                        | Inr (PList unique_contexts) \<Rightarrow>
                            if unique_contexts = [] then
                              ([Log ERROR ''Context file ''], None)
                            else
                              after [Log INFO ''Generating summaries for '']
                              (case qg_prompt w (SUMMARY_TOTAL_TOKENS cfg) unique_contexts of
                                 None \<Rightarrow>
                                   ([Log ERROR ''An unhandled error occurred during question generation task: ''], None)
                               | Some prompt \<Rightarrow>
                                   after [Log INFO ''Total description length: '',
                                          Log INFO ''Requesting question generation from LLM...'']
                                   (let c = call_llm_for_questions (qg_chat_completions_create w)
                                              (LLM_MODEL_NAME cfg) prompt 3 5 in
                                    after (fst c)
                                    (case snd c of
                                       None \<Rightarrow>
                                         ([Log ERROR ''Failed to get response from LLM for question generation.''], None)
                                     | Some generated_content \<Rightarrow>
                                         if generated_content = [] then
                                           ([Log ERROR ''Failed to get response from LLM for question generation.''], None)
                                         else
                                           after [WriteText (OUTPUT_QUESTIONS_FILE cfg) generated_content]
                                           (case qg_write_text w (OUTPUT_QUESTIONS_FILE cfg) generated_content of
                                              None \<Rightarrow>
                                                ([Log INFO ''Generated questions successfully saved to: ''],
                                                 Some (OUTPUT_QUESTIONS_FILE cfg))
                                            | Some OSError \<Rightarrow>
                                                ([Log ERROR ''Failed to write questions to file ''], None)
                                            | Some x \<Rightarrow>
                                                ([Log ERROR ''An unhandled error occurred during question generation task: ''], None)))))
                        | Inr v \<Rightarrow> ([Log ERROR ''Context file ''], None))))
             | v \<Rightarrow>
                 ([Log ERROR ''An unhandled error occurred during question generation task: ''], None)))"

text \<open>
  \<^verbatim>\<open>run_main_task()\<close> inside \<^verbatim>\<open>on_event\<close>. A \<^verbatim>\<open>TypeError\<close> of
  \<^verbatim>\<open>os.path.isdir\<close> is not caught here.
\<close>

definition qg_run_main_task ::
  "question_gen_world \<Rightarrow> question_gen_state \<Rightarrow> pyval
     \<Rightarrow> action list \<times> (pyexn + string option)" where
  "qg_run_main_task w s input_data =
     (let unique_contexts_dir = load_node_result input_data in
      if \<not> truthy unique_contexts_dir then
        ([Log ERROR ''Invalid input: Expected a valid directory path for ''], Inr None)
      else
        (case os_path_isdir (qg_fs w) unique_contexts_dir of
           Inl x \<Rightarrow> ([], Inl x)
         | Inr False \<Rightarrow>
             ([Log ERROR ''Invalid input: Expected a valid directory path for ''], Inr None)
         | Inr True \<Rightarrow>
             (let g = generate_questions_task w s unique_contexts_dir in
              (fst g, Inr (snd g)))))"

text \<open>
  \<^verbatim>\<open>on_event\<close> from the point where the configuration and the dependencies are
  there: the task is driven through the event loop and its result handled.
\<close>

definition qg_process ::
  "question_gen_world \<Rightarrow> question_gen_state \<Rightarrow> pyval \<Rightarrow> pyval \<Rightarrow> action list
     \<Rightarrow> question_gen_state \<times> action list \<times> (pyexn + DoraStatus)" where
  "qg_process w s input_data metadata pre =
     (let t = (if qg_loop_raises w then ([Log WARNING ''Asyncio loop issue: ''], Inr None)
               else qg_run_main_task w s input_data);
      failed = (s\<lparr>qg_processed := True\<rparr>,
                pre @ fst t @ [Log ERROR ''Question generation failed. No output sent.''],
                Inr STOP) in
      case snd t of
        Inl x \<Rightarrow> (s, pre @ fst t, Inl x)
      | Inr None \<Rightarrow> failed
      | Inr (Some output_file_path) \<Rightarrow>
          if output_file_path = [] then failed
          else
            (s\<lparr>qg_processed := True\<rparr>,
             pre @ fst t @
               [Log INFO ''Question generation completed successfully.'',
                SendOutput ''generated_questions_file''
                  (create_agent_output ''question_generator''
                     (PStr output_file_path) False) metadata,
                Log INFO ''Sent generated questions file path: '',
                Log INFO ''QuestionGenOperator processing finished.''],
             Inr STOP))"

text \<open>
  \<^verbatim>\<open>_setup_dependencies()\<close> and what follows it. It sets the tokenizer and the client,
  or resets both when building one of them raises.
\<close>

definition qg_with_dependencies ::
  "question_gen_world \<Rightarrow> question_gen_state \<Rightarrow> pyval \<Rightarrow> pyval \<Rightarrow> action list
     \<Rightarrow> question_gen_state \<times> action list \<times> (pyexn + DoraStatus)" where
  "qg_with_dependencies w s input_data metadata pre =
     (if \<not> qg_tokenizer s \<or> \<not> qg_llm_client s then
        (if qg_config s \<noteq> None \<and> qg_setup_dependencies w then
           qg_process w (s\<lparr>qg_tokenizer := True, qg_llm_client := True\<rparr>)
             input_data metadata (pre @ [SetupDependencies])
         else
           ((if qg_config s = None then s
             else s\<lparr>qg_tokenizer := False, qg_llm_client := False\<rparr>),
            pre @ [SetupDependencies, Log ERROR ''Failed to setup dependencies. Stopping.''],
            Inr STOP))
      else qg_process w s input_data metadata pre)"

fun qg_on_event ::
  "question_gen_world \<Rightarrow> question_gen_state \<Rightarrow> event
     \<Rightarrow> question_gen_state \<times> action list \<times> (pyexn + DoraStatus)" where
  "qg_on_event w s (INPUT event_id val metadata) =
     (if event_id = ''unique_contexts_dir'' then
        (if qg_processed s then
           (s, [Log DEBUG ''Received input event on ID: '',
                Log INFO ''Question generation already processed. Ignoring further inputs.''],
            Inr CONTINUE)
         else
           (case qg_config s of
              Some cfg \<Rightarrow>
                qg_with_dependencies w s val metadata
                  [Log DEBUG ''Received input event on ID: '',
                   Log INFO ''Received unique contexts directory path. Starting question generation...'']
            | None \<Rightarrow>
                (case qg_load_config w of
                   Loaded cfg \<Rightarrow>
                     qg_with_dependencies w (s\<lparr>qg_config := Some cfg\<rparr>) val metadata
                       [Log DEBUG ''Received input event on ID: '',
                        Log INFO ''Received unique contexts directory path. Starting question generation...'',
                        LoadConfig]
                 | LoadFailed c \<Rightarrow>
                     (s\<lparr>qg_config := c\<rparr>,
                      [Log DEBUG ''Received input event on ID: '',
                       Log INFO ''Received unique contexts directory path. Starting question generation...'',
                       LoadConfig,
                       Log ERROR ''Failed to load configuration. Stopping.''],
                      Inr STOP))))
      else
        (s, [Log DEBUG ''Received input event on ID: '',
             Log DEBUG ''Ignoring input from ID: ''],
         Inr CONTINUE))"
| "qg_on_event w s STOP_EVENT =
     (s, [Log INFO ''Received STOP event. Shutting down QuestionGenOperator.''], Inr CONTINUE)"
| "qg_on_event w s (ERROR_EVENT e) =
     (s, [Log ERROR ''Received ERROR event: ''], Inr CONTINUE)"
| "qg_on_event w s (OTHER_EVENT t) =
     (s, [Log DEBUG ''Received unknown event type: ''], Inr CONTINUE)"

section \<open>The indexing operator\<close>

text \<open>rag_index_operator.py. The keys of the configuration that the control flow reads.\<close>

record rag_index_config =
  WORKING_DIR :: string
  INPUT_CONTEXTS_FILENAME_PATTERN :: string

record rag_index_state =
  ri_config :: "rag_index_config option"
  ri_rag_instance :: bool
  ri_processed :: bool
  ri_llm_model_func :: bool
  ri_embedding_func_wrapper :: bool

text \<open>
  The world of the operator. \<open>ri_initialize_storages\<close> tells whether building the
  engine and initialising its storages succeeds (the action \<open>InitRag\<close> stands for
  both, the log line between them is left out); \<open>ri_glob\<close> lists the context files
  under a pattern; \<open>ri_insert_contexts_from_file\<close> is the result of
  \<^verbatim>\<open>_insert_contexts_from_file(file_path)\<close>, which catches every exception and
  returns a truth value.
\<close>

record rag_index_world =
  ri_load_config :: "rag_index_config load_result"
  ri_loop_raises :: bool
  ri_fs :: fs
  ri_initialize_storages :: bool
  ri_glob :: "string \<Rightarrow> string list"
  ri_insert_contexts_from_file :: "string \<Rightarrow> bool"

text \<open>The \<^verbatim>\<open>for\<close> loop over the context files: it stops at the first failure.\<close>

fun ri_insert_all :: "rag_index_world \<Rightarrow> string list \<Rightarrow> action list \<times> bool" where
  "ri_insert_all w [] = ([Log INFO ''All context files processed successfully.''], True)"
| "ri_insert_all w (file_path # files) =
     (if ri_insert_contexts_from_file w file_path then
        after [InsertContexts file_path] (ri_insert_all w files)
      else
        ([InsertContexts file_path,
          Log ERROR ''Stopping indexing process due to failure in file: ''], False))"

text \<open>
  \<^verbatim>\<open>main_indexing_task()\<close> inside \<^verbatim>\<open>on_event\<close>, with
  \<^verbatim>\<open>_initialize_rag_instance()\<close> at its start: the new operator state and the
  result. Every exception inside is caught and gives \<^verbatim>\<open>False\<close>.
\<close>

definition main_indexing_task ::
  "rag_index_world \<Rightarrow> rag_index_state \<Rightarrow> pyval
     \<Rightarrow> rag_index_state \<times> action list \<times> bool" where
  "main_indexing_task w s input_data =
     (case ri_config s of
        None \<Rightarrow> (s, [Log ERROR ''Cannot initialize RAG: Missing config or async functions.''], False)
      | Some cfg \<Rightarrow>
          if \<not> ri_llm_model_func s \<or> \<not> ri_embedding_func_wrapper s then
            (s, [Log ERROR ''Cannot initialize RAG: Missing config or async functions.''], False)
          else if \<not> ri_initialize_storages w then
            (s\<lparr>ri_rag_instance := False\<rparr>,
             [Log INFO ''Initializing LightRAG instance...'',
              InitRag (PStr (WORKING_DIR cfg)), Log ERROR ''Failed to initialize LightRAG: ''],
             False)
          else
            (let unique_contexts_dir = load_node_result input_data;
                 s1 = s\<lparr>ri_rag_instance := True\<rparr>;
                 pre = [Log INFO ''Initializing LightRAG instance...'',
                        InitRag (PStr (WORKING_DIR cfg)),
                        Log INFO ''LightRAG storages initialized.''];
                 invalid = (s1, pre @ [Log ERROR ''Invalid input: Expected a valid directory path for ''], False);
                 unhandled = (s1, pre @ [Log ERROR ''An unhandled error occurred during indexing task: ''], False)
             in
             if \<not> truthy unique_contexts_dir then invalid
             else
               (case os_path_isdir (ri_fs w) unique_contexts_dir of
                  Inl x \<Rightarrow> unhandled
                | Inr False \<Rightarrow> invalid
                | Inr True \<Rightarrow>
                    (case unique_contexts_dir of
                       PStr d \<Rightarrow>
                         (let context_files =
                                ri_glob w (os_path_join d (INPUT_CONTEXTS_FILENAME_PATTERN cfg));
                              r = ri_insert_all w context_files
                          in (s1,
                              pre @ [Log INFO ''Using unique contexts directory: ''] @
                                (if context_files = []
                                 then [Log WARNING ''No context files found matching pattern '']
                                 else []) @ fst r,
                              snd r))
                     | v \<Rightarrow>
                         (s1,
                          pre @ [Log INFO ''Using unique contexts directory: '',
                                 Log ERROR ''An unhandled error occurred during indexing task: ''],
                          False)))))"

text \<open>
  \<^verbatim>\<open>on_event\<close> from the point where the configuration \<open>cfg\<close> and the async
  functions are there. When \<^verbatim>\<open>loop.run_until_complete\<close> raises \<^verbatim>\<open>RuntimeError\<close> the handler only
  logs, and the variable \<^verbatim>\<open>success\<close>, which has no value yet, is read next:
  \<^verbatim>\<open>UnboundLocalError\<close> leaves \<^verbatim>\<open>on_event\<close>.
\<close>

definition ri_process ::
  "rag_index_world \<Rightarrow> rag_index_state \<Rightarrow> rag_index_config \<Rightarrow> pyval \<Rightarrow> pyval
     \<Rightarrow> action list \<Rightarrow> rag_index_state \<times> action list \<times> (pyexn + DoraStatus)" where
  "ri_process w s cfg input_data metadata pre =
     (if ri_loop_raises w then
        (s, pre @ [Log WARNING ''Asyncio loop issue: ''], Inl UnboundLocalError)
      else
        (case main_indexing_task w s input_data of
           (s1, tr, success) \<Rightarrow>
             if success then
               (s1\<lparr>ri_processed := True\<rparr>,
                pre @ tr @
                  [Log INFO ''RAG indexing completed successfully.'',
                   SendOutput ''rag_index_dir''
                     (create_agent_output ''rag_indexer'' (PStr (WORKING_DIR cfg)) False)
                     metadata,
                   Log INFO ''Sent RAG index directory path: '',
                   Log INFO ''RagIndexOperator processing finished.''],
                Inr STOP)
             else
               (s1\<lparr>ri_processed := True\<rparr>,
                pre @ tr @ [Log ERROR ''RAG indexing failed. No output sent.''],
                Inr STOP)))"

text \<open>\<^verbatim>\<open>_setup_async_funcs()\<close> and what follows it; it fails only without a configuration.\<close>

definition ri_with_async_funcs ::
  "rag_index_world \<Rightarrow> rag_index_state \<Rightarrow> rag_index_config \<Rightarrow> pyval \<Rightarrow> pyval
     \<Rightarrow> action list \<Rightarrow> rag_index_state \<times> action list \<times> (pyexn + DoraStatus)" where
  "ri_with_async_funcs w s cfg input_data metadata pre =
     (if \<not> ri_llm_model_func s \<or> \<not> ri_embedding_func_wrapper s then
        (if ri_config s \<noteq> None then
           ri_process w (s\<lparr>ri_llm_model_func := True, ri_embedding_func_wrapper := True\<rparr>)
             cfg input_data metadata
             (pre @ [SetupDependencies, Log INFO ''Async LLM and Embedding functions configured.''])
         else
           (s,
            pre @ [SetupDependencies,
                   Log ERROR ''Cannot setup async functions without configuration.'',
                   Log ERROR ''Failed to setup async functions. Stopping.''],
            Inr STOP))
      else ri_process w s cfg input_data metadata pre)"

fun ri_on_event ::
  "rag_index_world \<Rightarrow> rag_index_state \<Rightarrow> event
     \<Rightarrow> rag_index_state \<times> action list \<times> (pyexn + DoraStatus)" where
  "ri_on_event w s (INPUT event_id val metadata) =
     (if event_id = ''unique_contexts_dir'' then
        (if ri_processed s then
           (s, [Log DEBUG ''Received input event on ID: '',
                Log INFO ''RAG indexing already processed. Ignoring further inputs.''],
            Inr CONTINUE)
         else
           (case ri_config s of
              Some cfg \<Rightarrow>
                ri_with_async_funcs w s cfg val metadata
                  [Log DEBUG ''Received input event on ID: '',
                   Log INFO ''Received unique contexts directory path. Starting RAG indexing...'']
            | None \<Rightarrow>
                (case ri_load_config w of
                   Loaded cfg \<Rightarrow>
                     ri_with_async_funcs w (s\<lparr>ri_config := Some cfg\<rparr>) cfg val metadata
                       [Log DEBUG ''Received input event on ID: '',
                        Log INFO ''Received unique contexts directory path. Starting RAG indexing...'',
                        LoadConfig]
                 | LoadFailed c \<Rightarrow>
                     (s\<lparr>ri_config := c\<rparr>,
                      [Log DEBUG ''Received input event on ID: '',
                       Log INFO ''Received unique contexts directory path. Starting RAG indexing...'',
                       LoadConfig,
                       Log ERROR ''Failed to load configuration. Stopping.''],
                      Inr STOP))))
      else
        (s, [Log DEBUG ''Received input event on ID: '',
             Log DEBUG ''Ignoring input from ID: ''],
         Inr CONTINUE))"
| "ri_on_event w s STOP_EVENT =
     (s, [Log INFO ''Received STOP event. Shutting down RagIndexOperator.''], Inr CONTINUE)"
| "ri_on_event w s (ERROR_EVENT e) =
     (s, [Log ERROR ''Received ERROR event: ''], Inr CONTINUE)"
| "ri_on_event w s (OTHER_EVENT t) =
     (s, [Log DEBUG ''Received unknown event type: ''], Inr CONTINUE)"

section \<open>The query operator\<close>

text \<open>
  rag_query_operator.py, the stage with two inputs. \<^verbatim>\<open>self.questions_file_path\<close> and
  \<^verbatim>\<open>self.rag_index_dir\<close> hold the payloads as they came, \<^verbatim>\<open>None\<close> until one is
  stored.
\<close>

record rag_query_state =
  rq_config :: "rag_query_config option"
  rq_rag_instance :: bool
  rq_processed :: bool
  rq_questions_file_path :: pyval
  rq_rag_index_dir :: pyval
  rq_llm_model_func :: bool
  rq_embedding_func_wrapper :: bool

text \<open>What a \<^verbatim>\<open>with open(...) as f: json.dump(...)\<close> block does.\<close>

datatype dump_outcome = Written | RaisesTypeError | RaisesOther

text \<open>
  The world of the operator. \<open>rq_aquery i k\<close> is the outcome of the \<open>k\<close>-th call of
  \<^verbatim>\<open>rag_instance.aquery\<close> for the \<open>i\<close>-th query of the list. The three dumps are the
  first write of the results, its repetition with \<^verbatim>\<open>default=str\<close>, and the write of
  the errors.
\<close>

record rag_query_world =
  rq_load_config :: "rag_query_config load_result"
  rq_loop_raises :: bool
  rq_fs :: fs
  rq_initialize_storages :: bool
  rq_aquery :: "nat \<Rightarrow> nat \<Rightarrow> string + pyval"
  rq_dump_results :: dump_outcome
  rq_dump_results_default_str :: dump_outcome
  rq_dump_errors :: dump_outcome

text \<open>
  The \<^verbatim>\<open>for i, query_text in enumerate(queries)\<close> loop of
  \<^verbatim>\<open>_run_queries_and_save_task\<close>: the lists of results and of errors.
\<close>

fun run_queries ::
  "rag_query_world \<Rightarrow> bool \<Rightarrow> rag_query_config \<Rightarrow> nat \<Rightarrow> string list
     \<Rightarrow> action list \<times> (pyval list \<times> pyval list)" where
  "run_queries w rag cfg i [] = ([], ([], []))"
| "run_queries w rag cfg i (query_text # queries) =
     (let p = process_single_query rag cfg (rq_aquery w i) query_text (QUERY_MODE cfg);
          rest = run_queries w rag cfg (Suc i) queries
      in (Log INFO ''Processing query '' # fst p @ fst rest,
          ((case fst (snd p) of None \<Rightarrow> [] | Some result_data \<Rightarrow> [result_data])
             @ fst (snd rest),
           (case snd (snd p) of None \<Rightarrow> [] | Some error_data \<Rightarrow> [error_data])
             @ snd (snd rest))))"

text \<open>
  Saving the results:
  \<^verbatim>\<open>
  try:
      with open(results_file_path, "w", encoding="utf-8") as f:
          json.dump(results_list, f, ensure_ascii=False, indent=4)
  except TypeError as e:
       try:
           with open(results_file_path, "w", encoding="utf-8") as f:
               json.dump(results_list, f, ensure_ascii=False, indent=4, default=str)
       except Exception as ioe:
           results_file_path = None
  except Exception as e:
      results_file_path = None\<close>
\<close>

definition save_results ::
  "rag_query_world \<Rightarrow> string \<Rightarrow> pyval list \<Rightarrow> action list \<times> string option" where
  "save_results w results_file_path results_list =
     after [Log INFO ''Saving '', JsonDump results_file_path (PList results_list) False]
       (case rq_dump_results w of
          Written \<Rightarrow> ([], Some results_file_path)
        | RaisesTypeError \<Rightarrow>
            after [Log ERROR ''Serialization error writing results: '',
                   JsonDump results_file_path (PList results_list) True]
              (case rq_dump_results_default_str w of
                 Written \<Rightarrow>
                   ([Log WARNING ''Results saved with string conversion fallback due to serialization error.''],
                    Some results_file_path)
               | e \<Rightarrow> ([Log ERROR ''Failed to write results JSON even with fallback: ''], None))
        | RaisesOther \<Rightarrow> ([Log ERROR ''Failed to write results JSON: ''], None))"

text \<open>
  Saving the errors:
  \<^verbatim>\<open>
  try:
      with open(errors_file_path, "w", encoding="utf-8") as f:
           json.dump(errors_list, f, ensure_ascii=False, indent=4)
  except Exception as e:
      errors_file_path = None\<close>
\<close>

definition save_errors ::
  "rag_query_world \<Rightarrow> string \<Rightarrow> pyval list \<Rightarrow> action list \<times> string option" where
  "save_errors w errors_file_path errors_list =
     after [Log INFO ''Saving '', JsonDump errors_file_path (PList errors_list) False]
       (case rq_dump_errors w of
          Written \<Rightarrow> ([], Some errors_file_path)
        | e \<Rightarrow> ([Log ERROR ''Failed to write errors JSON: ''], None))"

text \<open>
  \<^verbatim>\<open>_run_queries_and_save_task(questions_file, rag_dir)\<close>, with
  \<^verbatim>\<open>_initialize_rag_instance(rag_dir)\<close> at its start: the new operator state and the
  pair \<^verbatim>\<open>(results_file_path, errors_file_path)\<close>.
\<close>

definition run_queries_and_save_task ::
  "rag_query_world \<Rightarrow> rag_query_state \<Rightarrow> pyval \<Rightarrow> pyval
     \<Rightarrow> rag_query_state \<times> action list \<times> (string option \<times> string option)" where
  "run_queries_and_save_task w s questions_file rag_dir =
     (case rq_config s of
        None \<Rightarrow>
          (s, [Log ERROR ''Cannot initialize RAG: Missing config or async functions.''],
           (None, None))
      | Some cfg \<Rightarrow>
          if \<not> rq_llm_model_func s \<or> \<not> rq_embedding_func_wrapper s then
            (s, [Log ERROR ''Cannot initialize RAG: Missing config or async functions.''],
             (None, None))
          else if \<not> rq_initialize_storages w then
            (s\<lparr>rq_rag_instance := False\<rparr>,
             [Log INFO ''Initializing LightRAG instance using existing directory: '',
              InitRag rag_dir,
              Log ERROR ''Failed to initialize LightRAG with existing directory ''],
             (None, None))
          else
            (let s1 = s\<lparr>rq_rag_instance := True\<rparr>;
                 pre = [Log INFO ''Initializing LightRAG instance using existing directory: '',
                        InitRag rag_dir,
                        Log INFO ''LightRAG instance pointing to existing index is ready.''];
                 e = extract_queries (rq_fs w) questions_file
             in
             if snd e = [] then
               (s1, pre @ fst e @ [Log WARNING ''No queries extracted. Nothing to process.''],
                (None, None))
             else
               (let q = run_queries w (rq_rag_instance s1) cfg 0 (snd e);
                    r = save_results w (OUTPUT_RESULTS_FILE cfg) (fst (snd q));
                    x = save_errors w (OUTPUT_ERRORS_FILE cfg) (snd (snd q))
                in (s1,
                    pre @ fst e @ [Log INFO ''Configured query mode: ''] @ fst q @ fst r @ fst x,
                    (snd r, snd x)))))"

text \<open>
  \<^verbatim>\<open>on_event\<close> from the point where both inputs are there, the operator has not
  processed yet, and the configuration and the async functions are there. When
  \<^verbatim>\<open>loop.run_until_complete\<close> raises \<^verbatim>\<open>RuntimeError\<close> the task has not run and both
  paths stay \<^verbatim>\<open>None\<close>.
\<close>

definition rq_process ::
  "rag_query_world \<Rightarrow> rag_query_state \<Rightarrow> pyval \<Rightarrow> action list
     \<Rightarrow> rag_query_state \<times> action list \<times> (pyexn + DoraStatus)" where
  "rq_process w s metadata pre =
     (let t = (if rq_loop_raises w then
                 (s, [Log WARNING ''Asyncio loop issue: ''], (None, None))
               else run_queries_and_save_task w s
                      (rq_questions_file_path s) (rq_rag_index_dir s));
          s1 = fst t;
          failed = (s1\<lparr>rq_processed := True\<rparr>,
                    pre @ fst (snd t) @
                      [Log ERROR ''RAG querying task failed or did not return valid output paths.''],
                    Inr STOP)
      in
      case snd (snd t) of
        (Some results_path, Some errors_path) \<Rightarrow>
          (s1\<lparr>rq_processed := True\<rparr>,
           pre @ fst (snd t) @
             [Log INFO ''RAG querying and saving completed.'',
              SendOutput ''query_results''
                (create_agent_output ''rag_query_evaluator''
                   (PDict [(''results_file'', PStr results_path),
                           (''errors_file'', PStr errors_path)]) True) metadata,
              Log INFO ''Sent output file paths: Results='',
              Log INFO ''RagQueryOperator processing finished.''],
           Inr STOP)
      | other \<Rightarrow> failed)"

text \<open>\<^verbatim>\<open>_setup_async_funcs()\<close> and what follows it; it fails only without a configuration.\<close>

definition rq_with_async_funcs ::
  "rag_query_world \<Rightarrow> rag_query_state \<Rightarrow> pyval \<Rightarrow> action list
     \<Rightarrow> rag_query_state \<times> action list \<times> (pyexn + DoraStatus)" where
  "rq_with_async_funcs w s metadata pre =
     (if \<not> rq_llm_model_func s \<or> \<not> rq_embedding_func_wrapper s then
        (if rq_config s \<noteq> None then
           rq_process w (s\<lparr>rq_llm_model_func := True, rq_embedding_func_wrapper := True\<rparr>)
             metadata
             (pre @ [SetupDependencies, Log INFO ''Async LLM and Embedding functions configured.''])
         else
           (s,
            pre @ [SetupDependencies,
                   Log ERROR ''Cannot setup async functions without configuration.'',
                   Log ERROR ''Failed to setup async functions. Stopping.''],
            Inr STOP))
      else rq_process w s metadata pre)"

text \<open>
  The second half of the \<^verbatim>\<open>INPUT\<close> branch of \<^verbatim>\<open>on_event\<close>, after the payload has
  been looked at:
  \<^verbatim>\<open>
  if self.questions_file_path and self.rag_index_dir and not self.processed:
      ...
  elif self.processed:
      logger.info("RAG querying already processed. Ignoring further inputs.")
  else:
      logger.info("Waiting for all required inputs ...")\<close>
\<close>

definition rq_check_ready ::
  "rag_query_world \<Rightarrow> rag_query_state \<Rightarrow> pyval \<Rightarrow> action list
     \<Rightarrow> rag_query_state \<times> action list \<times> (pyexn + DoraStatus)" where
  "rq_check_ready w s metadata pre =
     (if truthy (rq_questions_file_path s) \<and> truthy (rq_rag_index_dir s) \<and> \<not> rq_processed s then
        (case rq_config s of
           Some cfg \<Rightarrow>
             rq_with_async_funcs w s metadata
               (pre @ [Log INFO ''Both inputs received. Starting RAG query process...''])
         | None \<Rightarrow>
             (case rq_load_config w of
                Loaded cfg \<Rightarrow>
                  rq_with_async_funcs w (s\<lparr>rq_config := Some cfg\<rparr>) metadata
                    (pre @ [Log INFO ''Both inputs received. Starting RAG query process...'',
                            LoadConfig])
              | LoadFailed c \<Rightarrow>
                  (s\<lparr>rq_config := c\<rparr>,
                   pre @ [Log INFO ''Both inputs received. Starting RAG query process...'',
                          LoadConfig,
                          Log ERROR ''Failed to load configuration. Stopping.''],
                   Inr STOP)))
      else if rq_processed s then
        (s, pre @ [Log INFO ''RAG querying already processed. Ignoring further inputs.''],
         Inr CONTINUE)
      else
        (s, pre @ [Log INFO ''Waiting for all required inputs (questions file path and RAG index dir)...''],
         Inr CONTINUE))"

fun rq_on_event ::
  "rag_query_world \<Rightarrow> rag_query_state \<Rightarrow> event
     \<Rightarrow> rag_query_state \<times> action list \<times> (pyexn + DoraStatus)" where
  "rq_on_event w s (INPUT event_id val metadata) =
     (let payload = load_node_result val in
      if event_id = ''generated_questions_file'' then
        (case os_path_isfile (rq_fs w) payload of
           Inl x \<Rightarrow> (s, [Log DEBUG ''Received input event on ID: ''], Inl x)
         | Inr True \<Rightarrow>
             rq_check_ready w (s\<lparr>rq_questions_file_path := payload\<rparr>) metadata
               [Log DEBUG ''Received input event on ID: '',
                Log INFO ''Received questions file path: '']
         | Inr False \<Rightarrow>
             rq_check_ready w s metadata
               [Log DEBUG ''Received input event on ID: '',
                Log ERROR ''Received invalid path for questions file: ''])
      else if event_id = ''rag_index_dir'' then
        (case os_path_isdir (rq_fs w) payload of
           Inl x \<Rightarrow> (s, [Log DEBUG ''Received input event on ID: ''], Inl x)
         | Inr True \<Rightarrow>
             rq_check_ready w (s\<lparr>rq_rag_index_dir := payload\<rparr>) metadata
               [Log DEBUG ''Received input event on ID: '',
                Log INFO ''Received RAG index directory path: '']
         | Inr False \<Rightarrow>
             rq_check_ready w s metadata
               [Log DEBUG ''Received input event on ID: '',
                Log ERROR ''Received invalid path for RAG index directory: ''])
      else
        (s, [Log DEBUG ''Received input event on ID: '',
             Log DEBUG ''Ignoring input from unexpected ID: ''],
         Inr CONTINUE))"
| "rq_on_event w s STOP_EVENT =
     (s, [Log INFO ''Received STOP event. Shutting down RagQueryOperator.''], Inr CONTINUE)"
| "rq_on_event w s (ERROR_EVENT e) =
     (s, [Log ERROR ''Received ERROR event: ''], Inr CONTINUE)"
| "rq_on_event w s (OTHER_EVENT t) =
     (s, [Log DEBUG ''Received unknown event type: ''], Inr CONTINUE)"

text \<open>
  Processing starts where \<^verbatim>\<open>on_event\<close> enters the branch behind the test of both
  inputs; the first thing it does there is to log this line.
\<close>

definition processing_started :: action where
  "processing_started = Log INFO ''Both inputs received. Starting RAG query process...''"

section \<open>The result logger\<close>

text \<open>
  result_logger_operator.py, the sink of the pipeline. It has no configuration; its
  world is the probe \<^verbatim>\<open>os.path.exists\<close> applied to what the payload holds under
  \<^verbatim>\<open>results_file\<close> and \<^verbatim>\<open>errors_file\<close>, which raises \<^verbatim>\<open>TypeError\<close> for a value
  that is no path. The values of the model are all JSON values, so \<^verbatim>\<open>json.dumps\<close>
  succeeds.
\<close>

record result_logger_state =
  rl_processed :: bool

record result_logger_world =
  rl_path_exists :: "pyval \<Rightarrow> pyexn + bool"

text \<open>\<^verbatim>\<open>dict.get(key)\<close>: \<^verbatim>\<open>None\<close> for a missing key.\<close>

definition dict_get :: "(string \<times> pyval) list \<Rightarrow> string \<Rightarrow> pyval" where
  "dict_get kvs k = (case map_of kvs k of None \<Rightarrow> PNone | Some v \<Rightarrow> v)"

text \<open>The check of one of the two files named by the payload.\<close>

definition rl_check_file ::
  "result_logger_world \<Rightarrow> pyval \<Rightarrow> string \<Rightarrow> string \<Rightarrow> string
     \<Rightarrow> action list \<times> (pyexn + unit)" where
  "rl_check_file w file found missing absent =
     (if truthy file then
        (case rl_path_exists w file of
           Inl x \<Rightarrow> ([], Inl x)
         | Inr True \<Rightarrow> ([Log INFO found], Inr ())
         | Inr False \<Rightarrow> ([Log WARNING missing], Inr ()))
      else ([Log DEBUG absent], Inr ()))"

text \<open>The body of the \<^verbatim>\<open>try\<close> block of \<^verbatim>\<open>on_event\<close>.\<close>

definition rl_log_payload ::
  "result_logger_world \<Rightarrow> pyval \<Rightarrow> action list \<times> (pyexn + unit)" where
  "rl_log_payload w data =
     (let final_payload = load_node_result data in
      and_then
        ([Log INFO ''---- Final Pipeline Payload Received ----'', Log INFO ''''],
         Inr ())
        (\<lambda>u.
           and_then
             (case final_payload of
                PDict kvs \<Rightarrow>
                  and_then
                    (rl_check_file w (dict_get kvs ''results_file'')
                       ''  Results file exists: '' ''  Results file NOT FOUND: ''
                       ''  No '')
                    (\<lambda>u. rl_check_file w (dict_get kvs ''errors_file'')
                       ''  Errors file exists: '' ''  Errors file NOT FOUND: ''
                       ''  No '')
              | v \<Rightarrow> ([], Inr ()))
             (\<lambda>u. ([Log INFO ''---- End of LightRAG Pipeline Log ----'',
                     Log INFO ''Result logger finished processing. Stopping node.''],
                    Inr ()))))"

fun rl_on_event ::
  "result_logger_world \<Rightarrow> result_logger_state \<Rightarrow> event
     \<Rightarrow> result_logger_state \<times> action list \<times> (pyexn + DoraStatus)" where
  "rl_on_event w s (INPUT event_id val metadata) =
     (if rl_processed s then
        (s, [Log INFO ''Result already logged. Ignoring further inputs.''], Inr CONTINUE)
      else
        (let m = rl_log_payload w val in
         (s\<lparr>rl_processed := True\<rparr>,
          Log INFO ''Received final pipeline output on input ID: '' # fst m @
            (case snd m of
               Inl x \<Rightarrow> [Log ERROR ''Error processing final output in logger node: '']
             | Inr u \<Rightarrow> []),
          Inr STOP)))"
| "rl_on_event w s STOP_EVENT =
     (s, [Log INFO ''ResultLoggerOperator received STOP event.''], Inr CONTINUE)"
| "rl_on_event w s (ERROR_EVENT e) =
     (s, [Log DEBUG ''Ignoring event type: ''], Inr CONTINUE)"
| "rl_on_event w s (OTHER_EVENT t) =
     (s, [Log DEBUG ''Ignoring event type: ''], Inr CONTINUE)"

section \<open>Reading the result of \<open>on_event\<close>\<close>





section \<open>Example worlds\<close>






definition query_config :: rag_query_config where
  "query_config =
     \<lparr>QUERY_MODE = ''hybrid'', OUTPUT_RESULTS_FILE = ''out/results.json'',
      OUTPUT_ERRORS_FILE = ''out/errors.json'',
      QUERY_MAX_RETRIES = Some 3, QUERY_RETRY_DELAY = Some 5\<rparr>"



definition two_questions_text :: string where
  "two_questions_text =
     ''- Question 1: What is X?'' @ ''\<newline>'' @ ''- Question 2: How does Y work?''"

definition outline_text :: string where
  "outline_text =
     ''- User 1: Analyst'' @ ''\<newline>'' @
     ''    - Task 1: Compare sources'' @ ''\<newline>'' @
     ''        - Question 1: What is X?'' @ ''\<newline>'' @
     ''        - Question 2: How does Y work?'' @ ''\<newline>''"

definition questions_fs :: "string \<Rightarrow> fs" where
  "questions_fs text =
     \<lparr>os_path_exists = (\<lambda>p. p = ''out/questions.txt''),
      os_listdir = (\<lambda>p. Inl FileNotFoundError),
      os_path_isdir = (\<lambda>v. Inr (v = PStr ''index'')),
      os_path_isfile = (\<lambda>v. Inr (v = PStr ''out/questions.txt'')),
      read_text = (\<lambda>v. if v = PStr ''out/questions.txt'' then Inr text
                         else Inl FileNotFoundError)\<rparr>"

definition two_files_fs :: fs where
  "two_files_fs =
     \<lparr>os_path_exists = (\<lambda>p. p = ''out/questions.txt'' \<or> p = ''out/questions_v2.txt''),
      os_listdir = (\<lambda>p. Inl FileNotFoundError),
      os_path_isdir = (\<lambda>v. Inr (v = PStr ''index'')),
      os_path_isfile = (\<lambda>v. Inr (v = PStr ''out/questions.txt'' \<or>
                                     v = PStr ''out/questions_v2.txt'')),
      read_text = (\<lambda>v. if v = PStr ''out/questions.txt'' \<or> v = PStr ''out/questions_v2.txt''
                         then Inr two_questions_text else Inl FileNotFoundError)\<rparr>"

definition query_world :: "fs \<Rightarrow> rag_query_world" where
  "query_world f =
     \<lparr>rq_load_config = Loaded query_config,
      rq_loop_raises = False,
      rq_fs = f,
      rq_initialize_storages = True,
      rq_aquery = (\<lambda>i k. Inr (PStr ''answer'')),
      rq_dump_results = Written,
      rq_dump_results_default_str = Written,
      rq_dump_errors = Written\<rparr>"

definition query_done_state :: rag_query_state where
  "query_done_state =
     \<lparr>rq_config = Some query_config,
      rq_rag_instance = True,
      rq_processed = True,
      rq_questions_file_path = PStr ''out/questions.txt'',
      rq_rag_index_dir = PStr ''index'',
      rq_llm_model_func = True,
      rq_embedding_func_wrapper = True\<rparr>"


























section \<open>Envelope: round trip and shape test\<close>

lemma create_agent_output_envelope_shaped:
  "envelope_shaped (create_agent_output agent_name r flag)"
  by (simp add: create_agent_output_def)

lemma size_dict_entry:
  "(k, r) \<in> set kvs \<Longrightarrow> size r < size (PDict kvs)"
  by (induction kvs) auto

lemma load_node_result_raw:
  "\<not> has_agent_result v \<Longrightarrow> load_node_result v = v"
  by (cases v) (auto simp: map_of_eq_None_iff[THEN iffD2] split: option.splits)

text \<open>
  C4, as the code has it. Unwrapping what \<^verbatim>\<open>create_agent_output\<close> built gives the
  result back, whatever the result is (nested lists and dicts included). A value is
  returned unchanged when it is not a dict with the key \<^verbatim>\<open>agent_result\<close>: that key
  alone is the test, not the three-field shape of the envelope.
\<close>

theorem envelope_round_trip:
  "load_node_result (create_agent_output agent_name r flag) = r \<and>
   (\<not> has_agent_result v \<longrightarrow> load_node_result v = v)"
proof (intro conjI impI)
  have "map_of [(''agent_name'', PStr agent_name), (''agent_result'', r),
                (''dataflow_status'', PBool flag)] ''agent_result'' = Some r"
    by simp
  then show "load_node_result (create_agent_output agent_name r flag) = r"
    by (simp add: create_agent_output_def)
next
  assume "\<not> has_agent_result v"
  then show "load_node_result v = v"
    by (rule load_node_result_raw)
qed

theorem envelope_round_trip_witness:
  "load_node_result
     (create_agent_output ''stageX''
        (PDict [(''results_file'', PStr ''out/r.json''),
                (''nested'', PList [PInt 1, PDict [(''k'', PNone)]])]) False)
     = PDict [(''results_file'', PStr ''out/r.json''),
              (''nested'', PList [PInt 1, PDict [(''k'', PNone)]])] \<and>
   \<not> has_agent_result (PDict [(''path'', PStr ''data/unique_contexts'')]) \<and>
   load_node_result (PDict [(''path'', PStr ''data/unique_contexts'')])
     = PDict [(''path'', PStr ''data/unique_contexts'')]"
  using envelope_round_trip
    [of "''stageX''"
        "PDict [(''results_file'', PStr ''out/r.json''),
                (''nested'', PList [PInt 1, PDict [(''k'', PNone)]])]"
        False
        "PDict [(''path'', PStr ''data/unique_contexts'')]"]
  by simp

text \<open>
  C4 as stated fails for a dict that is not envelope-shaped (it has no producer name and
  no is-final flag) but has the key \<^verbatim>\<open>agent_result\<close>: it is not returned unchanged.
\<close>

theorem unwrap_not_envelope_counterexample:
  "\<not> envelope_shaped (PDict [(''agent_result'', PStr ''x'')]) \<and>
   load_node_result (PDict [(''agent_result'', PStr ''x'')])
     \<noteq> PDict [(''agent_result'', PStr ''x'')]"
  by simp

text \<open>
  C10. The shape test of \<^verbatim>\<open>load_node_result\<close> is exactly "a dict with the key
  \<^verbatim>\<open>agent_result\<close>": every such dict, with or without the other two envelope fields,
  is replaced by the value under that key (which is never the dict itself), and every
  other value is returned as it is.
\<close>

theorem load_node_result_key_only:
  "(has_agent_result v \<longrightarrow>
      (\<exists>kvs r. v = PDict kvs \<and> map_of kvs ''agent_result'' = Some r \<and>
         load_node_result v = r \<and> load_node_result v \<noteq> v)) \<and>
   (\<not> has_agent_result v \<longrightarrow> load_node_result v = v)"
proof (intro conjI impI)
  assume h: "has_agent_result v"
  then obtain kvs where v: "v = PDict kvs"
    by (cases v) auto
  with h have "map_of kvs ''agent_result'' \<noteq> None"
    by (simp add: map_of_eq_None_iff)
  then obtain r where r: "map_of kvs ''agent_result'' = Some r"
    by blast
  then have "(''agent_result'', r) \<in> set kvs"
    by (rule map_of_SomeD)
  then have "size r < size (PDict kvs)"
    by (rule size_dict_entry)
  then have "r \<noteq> PDict kvs"
    by auto
  with v r show "\<exists>kvs r. v = PDict kvs \<and> map_of kvs ''agent_result'' = Some r \<and>
      load_node_result v = r \<and> load_node_result v \<noteq> v"
    by simp
next
  assume "\<not> has_agent_result v"
  then show "load_node_result v = v"
    by (rule load_node_result_raw)
qed

theorem load_node_result_key_only_witness:
  "has_agent_result (PDict [(''agent_result'', PStr ''x'')]) \<and>
   \<not> envelope_shaped (PDict [(''agent_result'', PStr ''x'')]) \<and>
   load_node_result (PDict [(''agent_result'', PStr ''x'')]) = PStr ''x'' \<and>
   \<not> has_agent_result (PStr ''x'') \<and>
   load_node_result (PStr ''x'') = PStr ''x''"
  using load_node_result_key_only [of "PDict [(''agent_result'', PStr ''x'')]"]
    load_node_result_key_only [of "PStr ''x''"]
  by simp

section \<open>Retry loops: an operation that always fails\<close>



lemma effects_Nil [simp]: "effects [] = []"
  by (simp add: effects_def)

lemma effects_Cons [simp]:
  "effects (a # tr) = (if is_log a then effects tr else a # effects tr)"
  by (simp add: effects_def)

lemma effects_append [simp]: "effects (xs @ ys) = effects xs @ effects ys"
  by (simp add: effects_def)

lemma fst_after [simp]: "fst (after pre p) = pre @ fst p"
  by (simp add: after_def)

lemma snd_after [simp]: "snd (after pre p) = snd p"
  by (simp add: after_def)

lemma count_list_effects:
  "\<not> is_log a \<Longrightarrow> count_list (effects tr) a = count_list tr a"
  by (induction tr) auto







section \<open>Data preparation: failed download with the data already there\<close>

lemma sent_Nil [simp]: "sent [] = []"
  by (simp add: sent_def)

lemma sent_Cons [simp]: "sent (a # tr) = (if is_send a then a # sent tr else sent tr)"
  by (simp add: sent_def)

lemma sent_append [simp]: "sent (xs @ ys) = sent xs @ sent ys"
  by (simp add: sent_def)

lemma sent_download_dataset_from [simp]:
  "sent (fst (download_dataset_from op f repo_id local_dir max_retries delay retries)) = []"
proof (induction op f repo_id local_dir max_retries delay retries
    rule: download_dataset_from.induct)
  case (1 op f repo_id local_dir max_retries delay retries)
  then show ?case
    apply (subst download_dataset_from.simps)
    apply (simp split: option.splits sum.splits)
    done
qed

lemma sent_download_dataset [simp]:
  "sent (fst (download_dataset op f repo_id local_dir max_retries delay)) = []"
  by (simp add: download_dataset_def)




section \<open>Extracting the questions: the scenario\<close>

lemma queries_of_two_questions_text:
  "queries_of_text two_questions_text = [''What is X?'', ''How does Y work?'']"
  by code_simp

lemma queries_of_outline_text:
  "queries_of_text outline_text = [''What is X?'', ''How does Y work?'']"
  by code_simp

text \<open>
  C7. For the questions text made of the two lines \<^verbatim>\<open>- Question 1: What is X?\<close> and
  \<^verbatim>\<open>- Question 2: How does Y work?\<close>, \<^verbatim>\<open>extract_queries\<close> returns exactly
  \<^verbatim>\<open>["What is X?", "How does Y work?"]\<close>, in that order; and so it does when the two
  lines stand indented inside the outline of users and tasks that the prompt asks for.
\<close>

theorem extract_queries_two_questions:
  "(read_text f file_path = Inr two_questions_text \<longrightarrow>
      snd (extract_queries f file_path) = [''What is X?'', ''How does Y work?'']) \<and>
   (read_text f file_path = Inr outline_text \<longrightarrow>
      snd (extract_queries f file_path) = [''What is X?'', ''How does Y work?''])"
proof (intro conjI impI)
  assume "read_text f file_path = Inr two_questions_text"
  then have "snd (extract_queries f file_path) = queries_of_text two_questions_text"
    by (simp add: extract_queries_def Let_def)
  then show "snd (extract_queries f file_path) = [''What is X?'', ''How does Y work?'']"
    by (simp only: queries_of_two_questions_text)
next
  assume "read_text f file_path = Inr outline_text"
  then have "snd (extract_queries f file_path) = queries_of_text outline_text"
    by (simp add: extract_queries_def Let_def)
  then show "snd (extract_queries f file_path) = [''What is X?'', ''How does Y work?'']"
    by (simp only: queries_of_outline_text)
qed

theorem extract_queries_two_questions_witness:
  "snd (extract_queries (questions_fs two_questions_text) (PStr ''out/questions.txt''))
     = [''What is X?'', ''How does Y work?''] \<and>
   snd (extract_queries (questions_fs outline_text) (PStr ''out/questions.txt''))
     = [''What is X?'', ''How does Y work?'']"
  using extract_queries_two_questions
      [of "questions_fs two_questions_text" "PStr ''out/questions.txt''"]
    extract_queries_two_questions
      [of "questions_fs outline_text" "PStr ''out/questions.txt''"]
  by (simp add: questions_fs_def two_questions_text_def outline_text_def)

section \<open>Single-shot guard\<close>

text \<open>
  The four single-input operators test \<^verbatim>\<open>self.processed\<close> first: a further
  \<^verbatim>\<open>INPUT\<close> event changes nothing, calls nothing and returns \<^verbatim>\<open>CONTINUE\<close>.
\<close>

lemma processed_input_ignored:
  "dp_processed s1 \<Longrightarrow>
     dp_on_event w1 s1 (INPUT event_id val metadata)
       = (s1, [Log INFO ''Data preparation already processed. Ignoring further inputs.''],
          Inr CONTINUE)"
  "qg_processed s2 \<Longrightarrow>
     fst (qg_on_event w2 s2 (INPUT event_id val metadata)) = s2 \<and>
     effects (fst (snd (qg_on_event w2 s2 (INPUT event_id val metadata)))) = [] \<and>
     snd (snd (qg_on_event w2 s2 (INPUT event_id val metadata))) = Inr CONTINUE"
  "ri_processed s3 \<Longrightarrow>
     fst (ri_on_event w3 s3 (INPUT event_id val metadata)) = s3 \<and>
     effects (fst (snd (ri_on_event w3 s3 (INPUT event_id val metadata)))) = [] \<and>
     snd (snd (ri_on_event w3 s3 (INPUT event_id val metadata))) = Inr CONTINUE"
  "rl_processed s5 \<Longrightarrow>
     rl_on_event w5 s5 (INPUT event_id val metadata)
       = (s5, [Log INFO ''Result already logged. Ignoring further inputs.''], Inr CONTINUE)"
  by simp_all

text \<open>
  The query operator looks at the payload before it looks at \<^verbatim>\<open>self.processed\<close>. Once
  processed it makes no call to the outside, sends nothing and stays processed, but a
  payload that passes the check is still stored, and a payload that is no path raises.
\<close>

lemma rq_processed_input:
  assumes "rq_processed s"
  shows "(fst (rq_on_event w s (INPUT event_id val metadata)) = s \<or>
      fst (rq_on_event w s (INPUT event_id val metadata))
        = s\<lparr>rq_questions_file_path := load_node_result val\<rparr> \<or>
      fst (rq_on_event w s (INPUT event_id val metadata))
        = s\<lparr>rq_rag_index_dir := load_node_result val\<rparr>) \<and>
     effects (fst (snd (rq_on_event w s (INPUT event_id val metadata)))) = [] \<and>
     (snd (snd (rq_on_event w s (INPUT event_id val metadata))) = Inr CONTINUE \<or>
      (\<exists>x. snd (snd (rq_on_event w s (INPUT event_id val metadata))) = Inl x))"
  using assms
  by (auto simp: rq_check_ready_def Let_def split: sum.splits bool.splits)

text \<open>
  C1 at the query operator: it has processed, and a further \<^verbatim>\<open>INPUT\<close> event on
  \<^verbatim>\<open>generated_questions_file\<close> with another existing file changes
  \<^verbatim>\<open>self.questions_file_path\<close>, while the operator logs that it ignores the input.
\<close>

theorem processed_query_operator_stores_input:
  "rq_processed query_done_state \<and>
   rq_on_event (query_world two_files_fs) query_done_state
       (INPUT ''generated_questions_file''
          (create_agent_output ''question_generator'' (PStr ''out/questions_v2.txt'') False)
          PNone)
     = (query_done_state\<lparr>rq_questions_file_path := PStr ''out/questions_v2.txt''\<rparr>,
        [Log DEBUG ''Received input event on ID: '',
         Log INFO ''Received questions file path: '',
         Log INFO ''RAG querying already processed. Ignoring further inputs.''],
        Inr CONTINUE) \<and>
   query_done_state\<lparr>rq_questions_file_path := PStr ''out/questions_v2.txt''\<rparr>
     \<noteq> query_done_state"
  by (simp add: query_done_state_def query_world_def two_files_fs_def rq_check_ready_def
      create_agent_output_def)

section \<open>The barrier of the query operator\<close>

lemma not_started_after [simp]:
  "processing_started \<notin> set (fst (after pre p))
     \<longleftrightarrow> processing_started \<notin> set pre \<and> processing_started \<notin> set (fst p)"
  by (auto simp: after_def)












lemma count_not_started [simp]:
  "count_list [Log DEBUG ''Received input event on ID: '', Log l m] processing_started
     = (if Log l m = processing_started then 1 else 0)"
  by (simp add: processing_started_def)







section \<open>Saving the results and the errors\<close>




section \<open>Fatal failures\<close>

lemma sent_after [simp]: "sent (fst (after pre p)) = sent pre @ sent (fst p)"
  by (simp add: after_def)

lemma sent_and_then:
  "sent (fst (and_then p k))
     = (case snd p of Inl x \<Rightarrow> sent (fst p) | Inr a \<Rightarrow> sent (fst p) @ sent (fst (k a)))"
  by (simp add: and_then_def split: sum.splits)

lemma sent_call_llm_for_questions_from [simp]:
  "sent (fst (call_llm_for_questions_from op model prompt n d k)) = []"
proof (induction op model prompt n d k rule: call_llm_for_questions_from.induct)
  case (1 op model prompt n d k)
  then show ?case
    apply (subst call_llm_for_questions_from.simps)
    apply (simp split: sum.splits)
    done
qed

lemma sent_process_single_query_from [simp]:
  "sent (fst (process_single_query_from op q mode n d k)) = []"
proof (induction op q mode n d k rule: process_single_query_from.induct)
  case (1 op q mode n d k)
  then show ?case
    apply (subst process_single_query_from.simps)
    apply (simp split: sum.splits)
    done
qed

lemma sent_run_queries [simp]: "sent (fst (run_queries w rag cfg i qs)) = []"
  by (induction qs arbitrary: i) (simp_all add: Let_def process_single_query_def)

lemma sent_extract_queries [simp]: "sent (fst (extract_queries f p)) = []"
  by (simp add: extract_queries_def Let_def split: sum.splits pyexn.splits)

lemma sent_save [simp]:
  "sent (fst (save_results w p l)) = []" "sent (fst (save_errors w p l)) = []"
  by (simp_all add: save_results_def save_errors_def split: dump_outcome.splits)

lemma sent_run_queries_and_save_task [simp]:
  "sent (fst (snd (run_queries_and_save_task w s qf d))) = []"
  by (simp add: run_queries_and_save_task_def Let_def split: option.splits)

lemma sent_ri_insert_all [simp]: "sent (fst (ri_insert_all w files)) = []"
  by (induction files) simp_all

lemma sent_main_indexing_task [simp]:
  "sent (fst (snd (main_indexing_task w s v))) = []"
  by (simp add: main_indexing_task_def Let_def
      split: option.splits sum.splits bool.splits pyval.splits)

lemma sent_generate_questions_task [simp]:
  "sent (fst (generate_questions_task w s d)) = []"
  by (simp add: generate_questions_task_def Let_def call_llm_for_questions_def
      split: option.splits sum.splits pyval.splits pyexn.splits)

lemma sent_qg_run_main_task [simp]: "sent (fst (qg_run_main_task w s v)) = []"
  by (simp add: qg_run_main_task_def Let_def split: sum.splits bool.splits)

lemma sent_dp_download_step [simp]: "sent (fst (dp_download_step w cfg)) = []"
  by (simp add: dp_download_step_def split: sum.splits bool.splits)


lemma sent_rl_log_payload [simp]: "sent (fst (rl_log_payload w v)) = []"
  by (auto simp: rl_log_payload_def rl_check_file_def Let_def and_then_def
      split: sum.splits bool.splits pyval.splits)
















end
